theory Spec2Isabelle
  imports Complex_Main
begin

section \<open>The batched state-vector stream of squanch/qstream.py\<close>

text \<open>
  The module keeps one two-dimensional numpy array of complex amplitudes, one row per
  quantum system, and hands out \<open>QSystem\<close> objects that are numpy views of single rows.
  Amplitudes are modelled as exact complex numbers: the rounding of numpy's
  \<open>complex64\<close> is not part of the model. A row is a list of amplitudes and the
  two-dimensional array is the list of its rows. A view of a row is the number of that row,
  and every method that reads or writes through a view takes the array it refers to.
  A Python exception is a value: every method returns its result, or the exception it
  raised, together with the object as the call left it.
\<close>

type_synonym vec = "complex list"

type_synonym storage = "vec list"

text \<open>
  The module raises no exception of its own. These are the built-in exceptions that numpy
  and Python raise inside it: \<open>IndexError\<close> for a row number out of bounds,
  \<open>ValueError\<close> for shapes that do not fit, \<open>OverflowError\<close> for the
  conversion of an infinite float to an integer.
\<close>

datatype error = IndexError | ValueError | OverflowError

record QStream =
  state :: storage
  index :: int

record QSystem =
  state_view :: nat
  numQubits :: int

subsection \<open>The numpy operations the module calls\<close>

text \<open>
  \<open>np.repeat([row], repeats, axis=0)\<close>: the row, \<open>repeats\<close> times; a negative count
  is a \<open>ValueError\<close>.
\<close>

definition np_repeat :: "vec \<Rightarrow> int \<Rightarrow> error + storage" where
  "np_repeat row repeats =
     (if repeats < 0 then Inl ValueError else Inr (replicate (nat repeats) row))"

text \<open>
  \<open>a[i]\<close> on the first axis of a two-dimensional array: a view of row \<open>i\<close>, where a
  negative \<open>i\<close> counts from the last row, and an \<open>IndexError\<close> outside
  \<open>-len(a) \<le> i < len(a)\<close>.
\<close>

definition getitem :: "storage \<Rightarrow> int \<Rightarrow> error + nat" where
  "getitem a i =
     (let n = int (length a); j = (if i < 0 then n + i else i)
      in if 0 \<le> j \<and> j < n then Inr (nat j) else Inl IndexError)"

text \<open>
  \<open>int(np.log2(self.state.size))\<close>: the binary logarithm of the number of amplitudes,
  truncated. \<open>np.log2(0)\<close> is minus
  infinity, which \<open>int\<close> refuses with an \<open>OverflowError\<close>. The logarithm is a
  double-precision computation; the model takes its truncation to be the exact integer part.
\<close>

fun floor_log2 :: "nat \<Rightarrow> nat" where
  "floor_log2 n = (if n < 2 then 0 else Suc (floor_log2 (n div 2)))"

declare floor_log2.simps [simp del]

definition int_np_log2 :: "nat \<Rightarrow> error + int" where
  "int_np_log2 sz = (if sz = 0 then Inl OverflowError else Inr (int (floor_log2 sz)))"

text \<open>
  \<open>np.dot(operator, v)\<close> for a two-dimensional operator, given by its rows, and a vector:
  every row must be as long as the vector (\<open>ValueError\<close> otherwise), and the result has
  one entry per row of the operator. An operator with no row is the empty list.
\<close>

definition np_dot :: "vec list \<Rightarrow> vec \<Rightarrow> error + vec" where
  "np_dot operator v =
     (if list_all (\<lambda>row. length row = length v) operator
      then Inr (map (\<lambda>row. sum_list (map2 (*) row v)) operator)
      else Inl ValueError)"

text \<open>
  \<open>a[...] = w\<close> for vectors: \<open>w\<close> is written over \<open>a\<close> when the lengths agree, a
  vector of length one is broadcast to every position of \<open>a\<close>, and any other length is a
  \<open>ValueError\<close> raised before anything is written. The result is the new content of
  \<open>a\<close>.
\<close>

definition setitem_ellipsis :: "vec \<Rightarrow> vec \<Rightarrow> error + vec" where
  "setitem_ellipsis a w =
     (if length w = length a then Inr w
      else if length w = 1 then Inr (replicate (length a) (hd w))
      else Inl ValueError)"

subsection \<open>linalg.tensorProd\<close>

text \<open>
  Modelled from the spec: \<open>linalg.tensorProd\<close> is imported from a module that is not
  part of the sources. The specification gives it as the Kronecker product of two vectors,
  applied once per qubit, from the empty array on, to build the all-zero basis vector; the
  empty array is therefore its unit. The constructor below takes the tensor product as a
  parameter, and this definition is used only where a concrete function is needed.
\<close>

definition tensorProd :: "vec \<Rightarrow> vec \<Rightarrow> vec" where
  "tensorProd state1 state2 =
     (if state1 = [] then state2
      else if state2 = [] then state1
      else concat (map (\<lambda>a. map (\<lambda>b. a * b) state2) state1))"

subsection \<open>QStream\<close>

definition initialQubitState :: vec where
  "initialQubitState = [1, 0]"

text \<open>
  \<open>QStream.__init__\<close>. The loop is \<open>for _ in range(2)\<close>; \<open>systemSize\<close> is a
  parameter of the constructor that its body never reads.
\<close>

definition QStream_init :: "(vec \<Rightarrow> vec \<Rightarrow> vec) \<Rightarrow> int \<Rightarrow> int \<Rightarrow> error + QStream" where
  "QStream_init tensor systemSize numSystems =
     (let initialSystemState = fold (\<lambda>_ acc. tensor acc initialQubitState) [0..<2] []
      in case np_repeat initialSystemState numSystems of
           Inl e \<Rightarrow> Inl e
         | Inr rows \<Rightarrow> Inr \<lparr>state = rows, index = 0\<rparr>)"

text \<open>
  \<open>QSystem.__init__\<close> on the view \<open>v\<close> of a row of the array \<open>mem\<close>.
\<close>

definition QSystem_init :: "storage \<Rightarrow> nat \<Rightarrow> error + QSystem" where
  "QSystem_init mem v =
     (case int_np_log2 (length (mem ! v)) of
        Inl e \<Rightarrow> Inl e
      | Inr q \<Rightarrow> Inr \<lparr>state_view = v, numQubits = q\<rparr>)"

text \<open>\<open>QStream.system\<close>: \<open>QSystem(self.state[index])\<close>.\<close>

definition system :: "QStream \<Rightarrow> int \<Rightarrow> (error + QSystem) \<times> QStream" where
  "system self i =
     (case getitem (state self) i of
        Inl e \<Rightarrow> (Inl e, self)
      | Inr v \<Rightarrow> (QSystem_init (state self) v, self))"

text \<open>
  \<open>QStream.pop\<close>: the call of \<open>system\<close>, then the increment, which an exception of
  the call skips.
\<close>

definition pop :: "QStream \<Rightarrow> (error + QSystem) \<times> QStream" where
  "pop self =
     (case system self (index self) of
        (Inl e, self') \<Rightarrow> (Inl e, self')
      | (Inr sys, self') \<Rightarrow> (Inr sys, self'\<lparr>index := index self' + 1\<rparr>))"

text \<open>
  A caller that pops \<open>n\<close> times in a row and keeps the systems it was given, stopping
  at the first exception.
\<close>

fun pop_times :: "nat \<Rightarrow> QStream \<Rightarrow> (error + QSystem list) \<times> QStream" where
  "pop_times 0 self = (Inr [], self)"
| "pop_times (Suc n) self =
     (case pop self of
        (Inl e, self') \<Rightarrow> (Inl e, self')
      | (Inr sys, self') \<Rightarrow>
          (case pop_times n self' of
             (Inl e, self'') \<Rightarrow> (Inl e, self'')
           | (Inr syss, self'') \<Rightarrow> (Inr (sys # syss), self'')))"

subsection \<open>QSystem\<close>

text \<open>
  \<open>QSystem.apply\<close>: \<open>self.state[...] = np.dot(operator, self.state)\<close>, on the array
  \<open>mem\<close> that the view refers to. The product is computed first, then written through the
  view; an exception of either step leaves the array as it was.
\<close>

definition QSystem_apply :: "QSystem \<Rightarrow> vec list \<Rightarrow> storage \<Rightarrow> (error + unit) \<times> storage" where
  "QSystem_apply self operator mem =
     (case np_dot operator (mem ! state_view self) of
        Inl e \<Rightarrow> (Inl e, mem)
      | Inr w \<Rightarrow>
          (case setitem_ellipsis (mem ! state_view self) w of
             Inl e \<Rightarrow> (Inl e, mem)
           | Inr v' \<Rightarrow> (Inr (), mem[state_view self := v'])))"

subsection \<open>Unitary operators and the norm of a state\<close>

text \<open>
  The product that \<open>np.dot\<close> returns when every row of the operator is as long as the
  vector.
\<close>

definition mat_vec :: "vec list \<Rightarrow> vec \<Rightarrow> vec" where
  "mat_vec M v = map (\<lambda>row. sum_list (map2 (*) row v)) M"

text \<open>
  The notions the properties of \<open>apply\<close> are stated with, as the specification uses
  them. The conjugate transpose of an operator of \<open>n\<close> columns; an operator is unitary
  when it is an \<open>n\<close> by \<open>n\<close> matrix whose conjugate transpose is its left inverse, entry
  by entry; the norm of a state vector is the square root of the sum of the squared moduli
  of its amplitudes.
\<close>

definition adjoint :: "nat \<Rightarrow> vec list \<Rightarrow> vec list" where
  "adjoint n U = map (\<lambda>j. map (\<lambda>row. cnj (row ! j)) U) [0..<n]"

definition unitary :: "nat \<Rightarrow> vec list \<Rightarrow> bool" where
  "unitary n U =
     (length U = n \<and> list_all (\<lambda>row. length row = n) U
      \<and> list_all (\<lambda>i. list_all (\<lambda>j.
            sum_list (map (\<lambda>k. cnj (U ! k ! i) * (U ! k ! j)) [0..<n])
              = (if i = j then 1 else 0)) [0..<n]) [0..<n])"


section \<open>Properties\<close>

subsection \<open>Row access and the truncated logarithm\<close>

lemma system_stream [simp]: "snd (system self i) = self"
  by (simp add: system_def split: sum.splits)

lemma getitem_out_of_range:
  "i < - int (length a) \<or> int (length a) \<le> i \<Longrightarrow> getitem a i = Inl IndexError"
  by (auto simp: getitem_def Let_def)

lemma getitem_in_range:
  "0 \<le> i \<Longrightarrow> i < int (length a) \<Longrightarrow> getitem a i = Inr (nat i)"
  by (simp add: getitem_def Let_def)

lemma getitem_negative:
  "- int (length a) \<le> i \<Longrightarrow> i < 0 \<Longrightarrow> getitem a i = Inr (nat (int (length a) + i))"
  by (simp add: getitem_def Let_def)

lemma floor_log2_bounds:
  "0 < n \<Longrightarrow> 2 ^ floor_log2 n \<le> n \<and> n < 2 ^ Suc (floor_log2 n)"
proof (induction n rule: floor_log2.induct)
  case (1 n)
  show ?case
  proof (cases "n < 2")
    case True
    with "1.prems" show ?thesis by (simp add: floor_log2.simps [of n])
  next
    case False
    then have pos: "0 < n div 2" by simp
    from "1.IH" [OF False pos]
    have lo: "2 ^ floor_log2 (n div 2) \<le> n div 2"
      and hi: "n div 2 < 2 ^ Suc (floor_log2 (n div 2))" by simp_all
    have eq: "floor_log2 n = Suc (floor_log2 (n div 2))"
      using False by (simp add: floor_log2.simps [of n])
    from lo have "2 * 2 ^ floor_log2 (n div 2) \<le> n" by linarith
    moreover from hi have "n < 2 * 2 ^ Suc (floor_log2 (n div 2))" by linarith
    ultimately show ?thesis by (simp add: eq)
  qed
qed

lemma floor_log2_unique:
  assumes "2 ^ k \<le> n" and "n < 2 ^ Suc k"
  shows "floor_log2 n = k"
proof -
  have pos: "0 < n" using assms(1) by (metis less_le_trans zero_less_numeral zero_less_power)
  let ?q = "floor_log2 n"
  from floor_log2_bounds [OF pos] have lo: "2 ^ ?q \<le> n" and hi: "n < 2 ^ Suc ?q" by simp_all
  have "(2::nat) ^ k < 2 ^ Suc ?q" using assms(1) hi by linarith
  then have a: "k < Suc ?q" by (rule power_less_imp_less_exp [rotated]) simp
  have "(2::nat) ^ ?q < 2 ^ Suc k" using lo assms(2) by linarith
  then have b: "?q < Suc k" by (rule power_less_imp_less_exp [rotated]) simp
  from a b show ?thesis by simp
qed

lemma floor_log2_power: "floor_log2 (2 ^ k) = k"
  by (rule floor_log2_unique) simp_all

lemma QSystem_init_nonempty:
  "mem ! v \<noteq> [] \<Longrightarrow>
   QSystem_init mem v = Inr \<lparr>state_view = v, numQubits = int (floor_log2 (length (mem ! v)))\<rparr>"
  by (simp add: QSystem_init_def int_np_log2_def)

lemma QSystem_init_empty: "mem ! v = [] \<Longrightarrow> QSystem_init mem v = Inl OverflowError"
  by (simp add: QSystem_init_def int_np_log2_def)

lemma system_in_range:
  assumes "0 \<le> i" and "i < int (length (state self))" and "state self ! nat i \<noteq> []"
  shows "system self i =
           (Inr \<lparr>state_view = nat i,
                 numQubits = int (floor_log2 (length (state self ! nat i)))\<rparr>, self)"
  using assms by (simp add: system_def getitem_in_range QSystem_init_nonempty)

lemma pop_in_range:
  assumes "0 \<le> index self" and "index self < int (length (state self))"
    and "state self ! nat (index self) \<noteq> []"
  shows "pop self =
           (Inr \<lparr>state_view = nat (index self),
                 numQubits = int (floor_log2 (length (state self ! nat (index self))))\<rparr>,
            self\<lparr>index := index self + 1\<rparr>)"
  using assms by (simp add: pop_def system_in_range)

lemma pop_times_from:
  assumes "index self = int k" and "k + n \<le> length (state self)"
    and "list_all (\<lambda>row. row \<noteq> []) (state self)"
  shows "pop_times n self =
           (Inr (map (\<lambda>i. \<lparr>state_view = i,
                            numQubits = int (floor_log2 (length (state self ! i)))\<rparr>)
                     [k..<k + n]),
            self\<lparr>index := int (k + n)\<rparr>)"
  using assms
proof (induction n arbitrary: self k)
  case 0
  then show ?case by simp
next
  case (Suc n)
  let ?view = "\<lambda>i. \<lparr>state_view = i, numQubits = int (floor_log2 (length (state self ! i)))\<rparr>"
  let ?next = "self\<lparr>index := index self + 1\<rparr>"
  have k: "k < length (state self)" using Suc.prems(2) by simp
  then have row: "state self ! k \<noteq> []"
    using Suc.prems(3) by (simp add: list_all_length)
  have step: "pop self = (Inr (?view k), ?next)"
    using pop_in_range [of self] Suc.prems(1) k row by simp
  have "pop_times n ?next =
          (Inr (map (\<lambda>i. \<lparr>state_view = i,
                           numQubits = int (floor_log2 (length (state ?next ! i)))\<rparr>)
                    [Suc k..<Suc k + n]),
           ?next\<lparr>index := int (Suc k + n)\<rparr>)"
    using Suc.prems by (intro Suc.IH) simp_all
  then have rest: "pop_times n ?next =
          (Inr (map ?view [Suc k..<Suc k + n]), self\<lparr>index := int (k + Suc n)\<rparr>)"
    by simp
  have "[k..<k + Suc n] = k # [Suc k..<Suc k + n]"
    by (simp add: upt_conv_Cons)
  then show ?case
    by (simp add: step rest del: upt_Suc)
qed

subsection \<open>The product and the constructor\<close>

lemma np_dot_wrong_columns:
  assumes "list_all (\<lambda>row. length row = c) operator" and "operator \<noteq> []" and "c \<noteq> length v"
  shows "np_dot operator v = Inl ValueError"
proof -
  obtain row rest where "operator = row # rest" using assms(2) by (cases operator) auto
  then have "length row = c" using assms(1) by simp
  then have "\<not> list_all (\<lambda>row. length row = length v) operator"
    using assms(3) \<open>operator = row # rest\<close> by simp
  then show ?thesis by (simp add: np_dot_def)
qed

lemma np_dot_columns:
  assumes "list_all (\<lambda>row. length row = length v) operator"
  shows "np_dot operator v = Inr (map (\<lambda>row. sum_list (map2 (*) row v)) operator)"
  using assms by (simp add: np_dot_def)

lemma QStream_init_succeeds:
  "0 \<le> numSystems \<Longrightarrow>
   QStream_init tensor systemSize numSystems =
     Inr \<lparr>state = replicate (nat numSystems)
                     (tensor (tensor [] initialQubitState) initialQubitState),
          index = 0\<rparr>"
  by (simp add: QStream_init_def np_repeat_def Let_def numeral_2_eq_2)

lemma QStream_init_negative:
  "numSystems < 0 \<Longrightarrow> QStream_init tensor systemSize numSystems = Inl ValueError"
  by (simp add: QStream_init_def np_repeat_def Let_def)

lemma QStream_init_fresh:
  assumes "QStream_init tensor systemSize numSystems = Inr self"
  shows "index self = 0 \<and> length (state self) = nat numSystems"
proof (cases "numSystems < 0")
  case True
  then show ?thesis using assms by (simp add: QStream_init_negative)
next
  case False
  then show ?thesis using assms QStream_init_succeeds [of numSystems tensor systemSize] by auto
qed

lemma tensorProd_twice: "tensorProd (tensorProd [] initialQubitState) initialQubitState = [1, 0, 0, 0]"
  by (simp add: tensorProd_def initialQubitState_def)

subsection \<open>Construction\<close>

text \<open>
  C1. The claim is that \<open>QStream(s, m)\<close> builds \<open>m\<close> rows of length \<open>2^s\<close>. The
  constructor's loop runs \<open>range(2)\<close> whatever \<open>systemSize\<close> is, so that for every
  tensor product the stream built for a system size is the stream built for system size
  2; with the tensor product of the specification, three qubits give one row of four
  amplitudes, not eight.
\<close>

theorem QStream_init_ignores_systemSize:
  "QStream_init tensor systemSize numSystems = QStream_init tensor 2 numSystems
   \<and> QStream_init tensorProd 3 1 = Inr \<lparr>state = [[1, 0, 0, 0]], index = 0\<rparr>"
  by (simp add: QStream_init_def np_repeat_def Let_def tensorProd_def initialQubitState_def
      numeral_2_eq_2)

text \<open>
  C2, as the code has it. The constructor validates nothing. For every system size, also
  zero or negative, and every number of systems from zero on, it succeeds and builds a stream
  of that many rows with the cursor at 0. Only a negative number of systems fails, with the
  \<open>ValueError\<close> of \<open>np.repeat\<close>.
\<close>

theorem QStream_init_no_dimension_check:
  "(0 \<le> numSystems \<longrightarrow>
      (\<exists>self. QStream_init tensor systemSize numSystems = Inr self
              \<and> length (state self) = nat numSystems \<and> index self = 0))
   \<and> (numSystems < 0 \<longrightarrow> QStream_init tensor systemSize numSystems = Inl ValueError)"
  by (simp add: QStream_init_succeeds QStream_init_negative)

theorem QStream_init_no_dimension_check_witness:
  "(\<exists>self. QStream_init tensorProd 0 1 = Inr self \<and> length (state self) = 1 \<and> index self = 0)
   \<and> (\<exists>self. QStream_init tensorProd (- 5) 0 = Inr self \<and> length (state self) = 0 \<and> index self = 0)
   \<and> QStream_init tensorProd 1 (- 1) = Inl ValueError"
  using QStream_init_no_dimension_check [of 1 tensorProd 0]
    QStream_init_no_dimension_check [of 0 tensorProd "- 5"]
    QStream_init_no_dimension_check [of "- 1" tensorProd 1]
  by simp

text \<open>
  Zero systems give a stream with no row, and a system size of 0 or -1 gives a stream,
  where the claim has an error.
\<close>

theorem QStream_init_degenerate_counterexample:
  "QStream_init tensorProd 1 0 = Inr \<lparr>state = [], index = 0\<rparr>
   \<and> \<not> isl (QStream_init tensorProd 0 1)
   \<and> \<not> isl (QStream_init tensorProd (- 1) 1)"
  by (simp add: QStream_init_def np_repeat_def Let_def)

subsection \<open>The cursor\<close>

text \<open>
  C3. For every stream, \<open>pop\<close> returns what \<open>system\<close> returns at the cursor, and
  moves the cursor by one exactly when that call returned a system. Consequently, on a
  stream as the constructor builds it, with rows that are not empty, popping as many times
  as there are systems returns views of rows 0, 1, ... in that order and leaves the cursor
  at the number of systems.
\<close>

theorem pop_is_system_then_increment:
  "fst (pop self) = fst (system self (index self))
   \<and> snd (pop self) = (if isl (fst (system self (index self))) then self
                        else self\<lparr>index := index self + 1\<rparr>)
   \<and> (QStream_init tensor systemSize numSystems = Inr self
        \<and> list_all (\<lambda>row. row \<noteq> []) (state self) \<longrightarrow>
        pop_times (nat numSystems) self =
          (Inr (map (\<lambda>i. \<lparr>state_view = i,
                           numQubits = int (floor_log2 (length (state self ! i)))\<rparr>)
                    [0..<nat numSystems]),
           self\<lparr>index := int (nat numSystems)\<rparr>))"
proof (intro conjI impI)
  obtain r s where sys: "system self (index self) = (r, s)" by (cases "system self (index self)")
  have s: "s = self" using system_stream [of self "index self"] sys by simp
  show "fst (pop self) = fst (system self (index self))"
    by (cases r) (simp_all add: pop_def sys)
  show "snd (pop self) = (if isl (fst (system self (index self))) then self
                        else self\<lparr>index := index self + 1\<rparr>)"
    by (cases r) (simp_all add: pop_def sys s)
next
  assume a: "QStream_init tensor systemSize numSystems = Inr self
        \<and> list_all (\<lambda>row. row \<noteq> []) (state self)"
  then have "index self = 0 \<and> length (state self) = nat numSystems"
    using QStream_init_fresh by blast
  then show "pop_times (nat numSystems) self =
          (Inr (map (\<lambda>i. \<lparr>state_view = i,
                           numQubits = int (floor_log2 (length (state self ! i)))\<rparr>)
                    [0..<nat numSystems]),
           self\<lparr>index := int (nat numSystems)\<rparr>)"
    using a pop_times_from [of self 0 "nat numSystems"] by simp
qed

theorem pop_is_system_then_increment_witness:
  "QStream_init tensorProd 2 3
     = Inr \<lparr>state = [[1, 0, 0, 0], [1, 0, 0, 0], [1, 0, 0, 0]], index = 0\<rparr>
   \<and> pop_times 3 \<lparr>state = [[1, 0, 0, 0], [1, 0, 0, 0], [1, 0, 0, 0]], index = 0\<rparr> =
     (Inr [\<lparr>state_view = 0, numQubits = 2\<rparr>, \<lparr>state_view = 1, numQubits = 2\<rparr>,
           \<lparr>state_view = 2, numQubits = 2\<rparr>],
      \<lparr>state = [[1, 0, 0, 0], [1, 0, 0, 0], [1, 0, 0, 0]], index = 3\<rparr>)"
proof -
  let ?s = "\<lparr>state = [[1, 0, 0, 0], [1, 0, 0, 0], [1, 0, 0, 0]], index = 0\<rparr>"
  have fresh: "QStream_init tensorProd 2 3 = Inr ?s"
    by (simp add: QStream_init_succeeds tensorProd_twice numeral_3_eq_3)
  have rows: "list_all (\<lambda>row. row \<noteq> []) (state ?s)" by simp
  have n: "nat 3 = 3" by simp
  have upt: "[0..<3] = [0, 1, 2 :: nat]" by (simp add: numeral_3_eq_3)
  have fl: "floor_log2 (length [1, 0, 0, 0 :: complex]) = 2"
    by (rule floor_log2_unique) simp_all
  from pop_is_system_then_increment [of ?s tensorProd 2 3] fresh rows
  have "pop_times (nat 3) ?s =
          (Inr (map (\<lambda>i. \<lparr>state_view = i,
                           numQubits = int (floor_log2 (length (state ?s ! i)))\<rparr>)
                    [0..<nat 3]),
           ?s\<lparr>index := int (nat 3)\<rparr>)"
    by blast
  then have "pop_times 3 ?s =
     (Inr [\<lparr>state_view = 0, numQubits = 2\<rparr>, \<lparr>state_view = 1, numQubits = 2\<rparr>,
           \<lparr>state_view = 2, numQubits = 2\<rparr>],
      \<lparr>state = [[1, 0, 0, 0], [1, 0, 0, 0], [1, 0, 0, 0]], index = 3\<rparr>)"
    unfolding n upt using fl by simp
  with fresh show ?thesis by blast
qed

text \<open>
  C4, as the code has it. With the cursor equal to the number of systems, \<open>pop\<close> fails
  with the \<open>IndexError\<close> of the row access, the same error \<open>system\<close> raises for
  that row number, and leaves the stream as it was. The module has no exception of its
  own for an exhausted stream.
\<close>

theorem pop_exhausted_is_IndexError:
  assumes "index self = int (length (state self))"
  shows "pop self = (Inl IndexError, self) \<and> fst (pop self) = fst (system self (int (length (state self))))"
proof -
  have "getitem (state self) (index self) = Inl IndexError"
    using assms by (simp add: getitem_out_of_range)
  then show ?thesis using assms by (simp add: pop_def system_def)
qed

theorem pop_exhausted_is_IndexError_witness:
  "pop \<lparr>state = [[1, 0, 0, 0]], index = 1\<rparr> = (Inl IndexError, \<lparr>state = [[1, 0, 0, 0]], index = 1\<rparr>)"
  using pop_exhausted_is_IndexError [of "\<lparr>state = [[1, 0, 0, 0]], index = 1\<rparr>"]
  by simp

text \<open>
  The error of an exhausted \<open>pop\<close> on a stream of two systems is the index error
  of \<open>system(2)\<close>.
\<close>

theorem pop_exhausted_counterexample:
  "fst (pop \<lparr>state = [[1, 0], [1, 0]], index = 2\<rparr>) = Inl IndexError
   \<and> fst (pop \<lparr>state = [[1, 0], [1, 0]], index = 2\<rparr>)
       = fst (system \<lparr>state = [[1, 0], [1, 0]], index = 2\<rparr> 2)"
  by (simp add: pop_def system_def getitem_def)

text \<open>
  C10. When \<open>pop\<close> is called with the cursor at or beyond the number of systems, the call
  fails and the stream, its cursor included, is as it was before the call, so that the same
  call can be made again with the same outcome.
\<close>

theorem pop_failure_keeps_cursor:
  assumes "int (length (state self)) \<le> index self"
  shows "isl (fst (pop self)) \<and> index (snd (pop self)) = index self
         \<and> snd (pop self) = self \<and> pop (snd (pop self)) = pop self"
proof -
  have "getitem (state self) (index self) = Inl IndexError"
    using assms by (simp add: getitem_out_of_range)
  then have "pop self = (Inl IndexError, self)"
    by (simp add: pop_def system_def)
  then show ?thesis by simp
qed

theorem pop_failure_keeps_cursor_witness:
  "isl (fst (pop \<lparr>state = [[1, 0], [1, 0]], index = 2\<rparr>))
   \<and> index (snd (pop \<lparr>state = [[1, 0], [1, 0]], index = 2\<rparr>)) = 2
   \<and> snd (pop \<lparr>state = [[1, 0], [1, 0]], index = 2\<rparr>) = \<lparr>state = [[1, 0], [1, 0]], index = 2\<rparr>"
  using pop_failure_keeps_cursor [of "\<lparr>state = [[1, 0], [1, 0]], index = 2\<rparr>"]
  by simp

subsection \<open>Access by index\<close>

text \<open>
  C5, as the code has it. \<open>system(index)\<close> fails with \<open>IndexError\<close> for every index
  at or beyond the number of systems and for every index below minus that number. An
  index from minus the number of systems up to -1 counts from the last row, as numpy
  indexing does, and returns a view of that row. In every case the stream is returned as it
  was, cursor and storage.
\<close>

theorem system_index_bounds:
  "(i < - int (length (state self)) \<or> int (length (state self)) \<le> i \<longrightarrow>
      fst (system self i) = Inl IndexError)
   \<and> (- int (length (state self)) \<le> i \<and> i < 0
        \<and> state self ! nat (int (length (state self)) + i) \<noteq> [] \<longrightarrow>
      fst (system self i) =
        Inr \<lparr>state_view = nat (int (length (state self)) + i),
             numQubits = int (floor_log2 (length (state self ! nat (int (length (state self)) + i))))\<rparr>)
   \<and> snd (system self i) = self"
proof (intro conjI impI)
  assume "i < - int (length (state self)) \<or> int (length (state self)) \<le> i"
  then show "fst (system self i) = Inl IndexError"
    by (simp add: system_def getitem_out_of_range)
next
  let ?v = "nat (int (length (state self)) + i)"
  assume "- int (length (state self)) \<le> i \<and> i < 0 \<and> state self ! ?v \<noteq> []"
  then show "fst (system self i) =
        Inr \<lparr>state_view = ?v, numQubits = int (floor_log2 (length (state self ! ?v)))\<rparr>"
    by (simp add: system_def getitem_negative QSystem_init_nonempty)
next
  show "snd (system self i) = self" by (rule system_stream)
qed

theorem system_index_bounds_witness:
  "fst (system \<lparr>state = [[1, 0], [0, 1]], index = 0\<rparr> 2) = Inl IndexError
   \<and> fst (system \<lparr>state = [[1, 0], [0, 1]], index = 0\<rparr> (- 3)) = Inl IndexError
   \<and> fst (system \<lparr>state = [[1, 0], [0, 1]], index = 0\<rparr> (- 2)) = Inr \<lparr>state_view = 0, numQubits = 1\<rparr>
   \<and> snd (system \<lparr>state = [[1, 0], [0, 1]], index = 0\<rparr> (- 2)) = \<lparr>state = [[1, 0], [0, 1]], index = 0\<rparr>"
proof -
  have "floor_log2 (Suc (Suc 0)) = 1"
    by (rule floor_log2_unique) simp_all
  then show ?thesis
  using system_index_bounds [of 2 "\<lparr>state = [[1, 0], [0, 1]], index = 0\<rparr>"]
    system_index_bounds [of "- 3" "\<lparr>state = [[1, 0], [0, 1]], index = 0\<rparr>"]
    system_index_bounds [of "- 2" "\<lparr>state = [[1, 0], [0, 1]], index = 0\<rparr>"]
  by simp
qed

text \<open>
  Index -1 on a stream of two systems is not an error: it is a view of row 1.
\<close>

theorem system_negative_index_counterexample:
  "fst (system \<lparr>state = [[1, 0], [0, 1]], index = 0\<rparr> (- 1)) = Inr \<lparr>state_view = 1, numQubits = 1\<rparr>"
proof -
  have "floor_log2 (length [0, 1 :: complex]) = 1"
    by (rule floor_log2_unique) simp_all
  then show ?thesis
    by (simp add: system_def getitem_def QSystem_init_def int_np_log2_def)
qed

subsection \<open>Operators of the wrong shape\<close>

text \<open>
  C6, as the code has it. Let the state vector of a system have \<open>N \<ge> 1\<close> amplitudes and
  the operator be a matrix of \<open>r\<close> rows and \<open>c\<close> columns. If \<open>c\<close> is not \<open>N\<close>,
  or \<open>r\<close> is neither \<open>N\<close> nor 1, \<open>apply\<close> fails with numpy's \<open>ValueError\<close> and
  the array is as it was. An operator of one row and \<open>N\<close> columns is not refused:
  its one inner product with the state is written to every amplitude.
\<close>

theorem apply_shape_errors:
  assumes "mem ! state_view self \<noteq> []"
    and "list_all (\<lambda>row. length row = c) operator"
  shows "(c \<noteq> length (mem ! state_view self)
          \<or> (length operator \<noteq> length (mem ! state_view self) \<and> length operator \<noteq> 1) \<longrightarrow>
            QSystem_apply self operator mem = (Inl ValueError, mem))
       \<and> (c = length (mem ! state_view self) \<and> length operator = 1 \<longrightarrow>
            QSystem_apply self operator mem =
              (Inr (), mem[state_view self :=
                 replicate (length (mem ! state_view self))
                   (sum_list (map2 (*) (hd operator) (mem ! state_view self)))]))"
proof (intro conjI impI)
  let ?x = "mem ! state_view self"
  assume bad: "c \<noteq> length ?x \<or> (length operator \<noteq> length ?x \<and> length operator \<noteq> 1)"
  show "QSystem_apply self operator mem = (Inl ValueError, mem)"
  proof (cases "operator \<noteq> [] \<and> c \<noteq> length ?x")
    case True
    then have "np_dot operator ?x = Inl ValueError"
      using assms(2) by (simp add: np_dot_wrong_columns)
    then show ?thesis by (simp add: QSystem_apply_def)
  next
    case False
    then have cols: "list_all (\<lambda>row. length row = length ?x) operator"
      using assms(2) by auto
    have rows: "length operator \<noteq> length ?x \<and> length operator \<noteq> 1"
      using bad False assms(1) by auto
    show ?thesis
      using rows by (simp add: QSystem_apply_def np_dot_columns [OF cols] setitem_ellipsis_def)
  qed
next
  let ?x = "mem ! state_view self"
  assume one: "c = length ?x \<and> length operator = 1"
  then obtain row where op: "operator = [row]"
    by (cases operator) auto
  have dot: "np_dot [row] ?x = Inr [sum_list (map2 (*) row ?x)]"
    using assms(2) one op by (simp add: np_dot_def)
  show "QSystem_apply self operator mem =
          (Inr (), mem[state_view self :=
             replicate (length ?x) (sum_list (map2 (*) (hd operator) ?x))])"
  proof (cases "length ?x = 1")
    case True
    then show ?thesis
      by (simp add: QSystem_apply_def dot setitem_ellipsis_def op)
  next
    case False
    then show ?thesis
      by (simp add: QSystem_apply_def dot setitem_ellipsis_def op)
  qed
qed

theorem apply_shape_errors_witness:
  "QSystem_apply \<lparr>state_view = 0, numQubits = 1\<rparr> [[1, 0, 0], [0, 1, 0]] [[1, 0]]
     = (Inl ValueError, [[1, 0]])
   \<and> QSystem_apply \<lparr>state_view = 0, numQubits = 1\<rparr> [[1, 0], [0, 1], [1, 1]] [[1, 0]]
     = (Inl ValueError, [[1, 0]])
   \<and> QSystem_apply \<lparr>state_view = 0, numQubits = 1\<rparr> [[0, 1]] [[1, 0]]
     = (Inr (), [[0, 0]])"
  using apply_shape_errors [of "[[1, 0]]" "\<lparr>state_view = 0, numQubits = 1\<rparr>" 3 "[[1, 0, 0], [0, 1, 0]]"]
    apply_shape_errors [of "[[1, 0]]" "\<lparr>state_view = 0, numQubits = 1\<rparr>" 2 "[[1, 0], [0, 1], [1, 1]]"]
    apply_shape_errors [of "[[1, 0]]" "\<lparr>state_view = 0, numQubits = 1\<rparr>" 2 "[[0, 1]]"]
  by (simp add: numeral_2_eq_2)

text \<open>
  On a one-qubit system in state \<open>[1, 0]\<close> the operator \<open>[[1, 1]]\<close>, of shape 1 by 2,
  is applied without error and leaves the state \<open>[1, 1]\<close>.
\<close>

theorem apply_row_operator_counterexample:
  "QSystem_apply \<lparr>state_view = 0, numQubits = 1\<rparr> [[1, 1]] [[1, 0]] = (Inr (), [[1, 1]])"
  by (simp add: QSystem_apply_def np_dot_def setitem_ellipsis_def)

subsection \<open>The qubit count of a view\<close>

text \<open>
  C7, as the code has it. Over an empty row the construction of a \<open>QSystem\<close> fails
  with \<open>OverflowError\<close>. Over any other row it succeeds, and \<open>numQubits\<close> is the
  integer part of the binary logarithm of the row's length: the exact logarithm when the
  length is a power of two, and the logarithm of the next lower power of two otherwise,
  with no error.
\<close>

theorem numQubits_is_truncated_log2:
  "(mem ! v = [] \<longrightarrow> QSystem_init mem v = Inl OverflowError)
   \<and> (mem ! v \<noteq> [] \<longrightarrow>
        QSystem_init mem v =
          Inr \<lparr>state_view = v, numQubits = int (floor_log2 (length (mem ! v)))\<rparr>
        \<and> 2 ^ floor_log2 (length (mem ! v)) \<le> length (mem ! v)
        \<and> length (mem ! v) < 2 ^ Suc (floor_log2 (length (mem ! v))))
   \<and> (length (mem ! v) = 2 ^ k \<longrightarrow>
        QSystem_init mem v = Inr \<lparr>state_view = v, numQubits = int k\<rparr>)"
proof (intro conjI impI)
  assume "mem ! v = []"
  then show "QSystem_init mem v = Inl OverflowError" by (rule QSystem_init_empty)
next
  assume ne: "mem ! v \<noteq> []"
  then show "QSystem_init mem v =
          Inr \<lparr>state_view = v, numQubits = int (floor_log2 (length (mem ! v)))\<rparr>"
    by (rule QSystem_init_nonempty)
  have "0 < length (mem ! v)" using ne by simp
  then show "2 ^ floor_log2 (length (mem ! v)) \<le> length (mem ! v)"
    and "length (mem ! v) < 2 ^ Suc (floor_log2 (length (mem ! v)))"
    using floor_log2_bounds by blast+
next
  assume p: "length (mem ! v) = 2 ^ k"
  then have "mem ! v \<noteq> []" by auto
  then show "QSystem_init mem v = Inr \<lparr>state_view = v, numQubits = int k\<rparr>"
    by (simp add: QSystem_init_nonempty p floor_log2_power)
qed

theorem numQubits_is_truncated_log2_witness:
  "QSystem_init [[]] 0 = Inl OverflowError
   \<and> QSystem_init [[1, 0, 0, 0]] 0 = Inr \<lparr>state_view = 0, numQubits = 2\<rparr>"
proof -
  have empty: "[[]] ! 0 = ([] :: vec)" by simp
  have four: "length ([[1, 0, 0, 0]] ! 0 :: vec) = 2 ^ 2" by simp
  from numQubits_is_truncated_log2 [of "[[]]" 0] empty
  have "QSystem_init [[]] 0 = Inl OverflowError" by blast
  moreover from numQubits_is_truncated_log2 [of "[[1, 0, 0, 0]]" 0 2] four
  have "QSystem_init [[1, 0, 0, 0]] 0 = Inr \<lparr>state_view = 0, numQubits = int 2\<rparr>" by blast
  ultimately show ?thesis by simp
qed

text \<open>
  A row of three amplitudes gives a system of one qubit, and no error.
\<close>

theorem numQubits_truncation_counterexample:
  "QSystem_init [[1, 0, 0]] 0 = Inr \<lparr>state_view = 0, numQubits = 1\<rparr>"
proof -
  have "floor_log2 (length [1, 0, 0 :: complex]) = 1"
    by (rule floor_log2_unique) simp_all
  then show ?thesis
    by (simp add: QSystem_init_def int_np_log2_def)
qed

subsection \<open>Unitary evolution\<close>

lemma dot_nth:
  assumes "length a = n" and "length b = n"
  shows "sum_list (map2 (*) a b) = (\<Sum>k<n. a ! k * b ! k)"
proof -
  have "sum_list (map2 (*) a b) = (\<Sum>k = 0..<length (map2 (*) a b). map2 (*) a b ! k)"
    by (rule sum_list_sum_nth)
  also have "\<dots> = (\<Sum>k = 0..<n. a ! k * b ! k)"
    using assms by (intro sum.cong) simp_all
  finally show ?thesis by (simp add: atLeast0LessThan)
qed

lemma unitary_rows: "unitary n U \<Longrightarrow> length U = n \<and> list_all (\<lambda>row. length row = n) U"
  by (simp add: unitary_def)

lemma unitary_row_length: "unitary n U \<Longrightarrow> k < n \<Longrightarrow> length (U ! k) = n"
  by (simp add: unitary_def list_all_length)

lemma unitary_entries:
  assumes "unitary n U" and "i < n" and "j < n"
  shows "(\<Sum>k<n. cnj (U ! k ! i) * (U ! k ! j)) = (if i = j then 1 else 0)"
proof -
  have "sum_list (map (\<lambda>k. cnj (U ! k ! i) * (U ! k ! j)) [0..<n]) = (if i = j then 1 else 0)"
    using assms by (simp add: unitary_def list_all_iff)
  then show ?thesis
    by (simp add: interv_sum_list_conv_sum_set_nat atLeast0LessThan)
qed

lemma mat_vec_nth:
  assumes "unitary n U" and "length x = n" and "k < n"
  shows "mat_vec U x ! k = (\<Sum>i<n. U ! k ! i * x ! i)"
proof -
  have "length U = n" using assms(1) by (simp add: unitary_def)
  then have "mat_vec U x ! k = sum_list (map2 (*) (U ! k) x)"
    using assms(3) by (simp add: mat_vec_def)
  also have "\<dots> = (\<Sum>i<n. U ! k ! i * x ! i)"
    using assms by (intro dot_nth) (simp_all add: unitary_row_length)
  finally show ?thesis .
qed

lemma adjoint_mat_vec_nth:
  assumes "length U = n" and "length y = n" and "j < n"
  shows "mat_vec (adjoint n U) y ! j = (\<Sum>k<n. cnj (U ! k ! j) * y ! k)"
proof -
  have "mat_vec (adjoint n U) y ! j = sum_list (map2 (*) (map (\<lambda>row. cnj (row ! j)) U) y)"
    using assms(3) by (simp add: mat_vec_def adjoint_def)
  also have "\<dots> = (\<Sum>k<n. map (\<lambda>row. cnj (row ! j)) U ! k * y ! k)"
    using assms by (intro dot_nth) simp_all
  also have "\<dots> = (\<Sum>k<n. cnj (U ! k ! j) * y ! k)"
    using assms(1) by (intro sum.cong) simp_all
  finally show ?thesis .
qed

lemma unitary_inverse:
  assumes "unitary n U" and "length x = n"
  shows "mat_vec (adjoint n U) (mat_vec U x) = x"
proof (rule nth_equalityI)
  show "length (mat_vec (adjoint n U) (mat_vec U x)) = length x"
    using assms(2) by (simp add: mat_vec_def adjoint_def)
next
  fix j assume "j < length (mat_vec (adjoint n U) (mat_vec U x))"
  then have j: "j < n" by (simp add: mat_vec_def adjoint_def)
  have lenU: "length U = n" using assms(1) by (simp add: unitary_def)
  have leny: "length (mat_vec U x) = n" using lenU by (simp add: mat_vec_def)
  have "mat_vec (adjoint n U) (mat_vec U x) ! j
          = (\<Sum>k<n. cnj (U ! k ! j) * mat_vec U x ! k)"
    using lenU leny j by (rule adjoint_mat_vec_nth)
  also have "\<dots> = (\<Sum>k<n. cnj (U ! k ! j) * (\<Sum>i<n. U ! k ! i * x ! i))"
    using assms by (intro sum.cong) (simp_all add: mat_vec_nth)
  also have "\<dots> = (\<Sum>k<n. \<Sum>i<n. cnj (U ! k ! j) * (U ! k ! i) * x ! i)"
    by (simp add: sum_distrib_left mult.assoc)
  also have "\<dots> = (\<Sum>i<n. \<Sum>k<n. cnj (U ! k ! j) * (U ! k ! i) * x ! i)"
    by (rule sum.swap)
  also have "\<dots> = (\<Sum>i<n. (\<Sum>k<n. cnj (U ! k ! j) * (U ! k ! i)) * x ! i)"
    by (simp add: sum_distrib_right)
  also have "\<dots> = (\<Sum>i<n. (if j = i then 1 else 0) * x ! i)"
    using assms(1) j by (intro sum.cong) (simp_all add: unitary_entries)
  also have "\<dots> = (\<Sum>i<n. if j = i then x ! i else 0)"
    by (intro sum.cong) simp_all
  also have "\<dots> = x ! j"
    using j by simp
  finally show "mat_vec (adjoint n U) (mat_vec U x) ! j = x ! j" .
qed

lemma apply_square:
  assumes "length M = length (mem ! state_view self)"
    and "list_all (\<lambda>row. length row = length (mem ! state_view self)) M"
  shows "QSystem_apply self M mem = (Inr (), mem[state_view self := mat_vec M (mem ! state_view self)])"
  using assms by (simp add: QSystem_apply_def np_dot_def setitem_ellipsis_def mat_vec_def)

lemma adjoint_shape:
  "length (adjoint n U) = n \<and> list_all (\<lambda>row. length row = length U) (adjoint n U)"
  by (simp add: adjoint_def list_all_iff)

lemma apply_unitary:
  assumes "unitary n U" and "length (mem ! state_view self) = n"
  shows "QSystem_apply self U mem = (Inr (), mem[state_view self := mat_vec U (mem ! state_view self)])"
  using assms unitary_rows [OF assms(1)] by (intro apply_square) simp_all

lemma unitary_PauliY: "unitary 2 [[0, - \<i>], [\<i>, 0]]"
  by (simp add: unitary_def numeral_2_eq_2)





text \<open>
  C8. For every system whose state vector has as many amplitudes as a unitary operator
  \<open>U\<close> has rows and columns, \<open>apply(U)\<close> succeeds, and \<open>apply\<close> of the conjugate
  transpose of \<open>U\<close> on the result succeeds and leaves the array, and with it the state
  vector, exactly as it was before the two calls. Amplitudes are exact in the model, so
  that the tolerance of the claim is equality.
\<close>

theorem apply_unitary_round_trip:
  assumes "unitary n U" and "state_view self < length mem"
    and "length (mem ! state_view self) = n"
  shows "fst (QSystem_apply self U mem) = Inr ()
         \<and> QSystem_apply self (adjoint n U) (snd (QSystem_apply self U mem)) = (Inr (), mem)"
proof -
  let ?v = "state_view self"
  let ?x = "mem ! ?v"
  let ?mem' = "mem[?v := mat_vec U ?x]"
  have first: "QSystem_apply self U mem = (Inr (), ?mem')"
    using assms(1,3) by (rule apply_unitary)
  have row': "?mem' ! ?v = mat_vec U ?x" using assms(2) by simp
  have lenU: "length U = n" using assms(1) by (simp add: unitary_def)
  have leny: "length (mat_vec U ?x) = n" using lenU by (simp add: mat_vec_def)
  have "QSystem_apply self (adjoint n U) ?mem'
          = (Inr (), ?mem'[?v := mat_vec (adjoint n U) (?mem' ! ?v)])"
    using adjoint_shape [of n U] lenU leny row' by (intro apply_square) simp_all
  also have "mat_vec (adjoint n U) (?mem' ! ?v) = ?x"
    using assms(1,3) by (simp add: row' unitary_inverse)
  finally have "QSystem_apply self (adjoint n U) ?mem' = (Inr (), mem)"
    by simp
  with first show ?thesis by simp
qed

theorem apply_unitary_round_trip_witness:
  "fst (QSystem_apply \<lparr>state_view = 0, numQubits = 1\<rparr> [[0, - \<i>], [\<i>, 0]] [[1, 0]]) = Inr ()
   \<and> QSystem_apply \<lparr>state_view = 0, numQubits = 1\<rparr> (adjoint 2 [[0, - \<i>], [\<i>, 0]])
        (snd (QSystem_apply \<lparr>state_view = 0, numQubits = 1\<rparr> [[0, - \<i>], [\<i>, 0]] [[1, 0]]))
      = (Inr (), [[1, 0]])"
  using apply_unitary_round_trip
    [of 2 "[[0, - \<i>], [\<i>, 0]]" "\<lparr>state_view = 0, numQubits = 1\<rparr>" "[[1, 0]]"]
    unitary_PauliY
  by simp



end
